theory Spec2Isabelle
  imports Main
begin

section \<open>Values exchanged with the platform\<close>

text \<open>
  The session manager (\<^verbatim>\<open>AuthProvider\<close>) and the HTTP helper (\<^verbatim>\<open>utils/auth.ts\<close>) run in a
  browser. What the browser supplies is kept apart from what the repository computes:
  \<^verbatim>\<open>Date.now\<close>, \<^verbatim>\<open>atob\<close>, \<^verbatim>\<open>JSON.parse\<close>, \<^verbatim>\<open>JSON.stringify\<close>, \<^verbatim>\<open>fetch\<close> and the configured
  \<^verbatim>\<open>api_url\<close> are fields of an environment record, and every operation takes the
  environment it runs in. A call that throws in JavaScript returns \<open>None\<close> here.

  JSON numbers are modelled as integers: the only number the code reads is the \<^verbatim>\<open>exp\<close>
  claim, a count of seconds since the epoch.
\<close>

datatype json =
    JNull
  | JBool bool
  | JNum int
  | JStr string
  | JArr "json list"
  | JObj "(string \<times> json) list"

text \<open>The result of reading a property: a JSON value, or \<^verbatim>\<open>undefined\<close>.\<close>

datatype jsval = Undefined | Val json

text \<open>A string or \<^verbatim>\<open>null\<close>/\<^verbatim>\<open>undefined\<close> used as a condition: only a non-empty string is truthy.\<close>

fun truthy :: "string option \<Rightarrow> bool" where
  "truthy None = False"
| "truthy (Some s) = (s \<noteq> [])"

text \<open>\<^verbatim>\<open>a || b\<close> on strings that may be absent.\<close>

definition or_else :: "string option \<Rightarrow> string option \<Rightarrow> string option" where
  "or_else a b = (if truthy a then a else b)"

text \<open>\<^verbatim>\<open>s.split('.')\<close>: the pieces between the separators, at least one piece.\<close>

fun split :: "char \<Rightarrow> string \<Rightarrow> string list" where
  "split c [] = [[]]"
| "split c (x # xs) =
     (if x = c then [] # split c xs
      else (case split c xs of
              [] \<Rightarrow> [[x]]
            | p # ps \<Rightarrow> (x # p) # ps))"

text \<open>
  \<^verbatim>\<open>parts[1]\<close> handed to a function that takes a string: an index past the end reads
  \<^verbatim>\<open>undefined\<close>, which the platform converts to the string \<^verbatim>\<open>"undefined"\<close>.
\<close>

definition index1 :: "string list \<Rightarrow> string" where
  "index1 parts = (case parts of _ # s # _ \<Rightarrow> s | _ \<Rightarrow> ''undefined'')"

text \<open>\<^verbatim>\<open>payload.exp\<close>: reading a property of \<^verbatim>\<open>null\<close> throws; a value that is not an object,
  or an object without the key, gives \<^verbatim>\<open>undefined\<close>.\<close>

fun payload_exp :: "json \<Rightarrow> jsval option" where
  "payload_exp JNull = None"
| "payload_exp (JObj kvs) =
     Some (case map_of kvs ''exp'' of None \<Rightarrow> Undefined | Some v \<Rightarrow> Val v)"
| "payload_exp _ = Some Undefined"

subsection \<open>Requests and responses\<close>

record request =
  req_url :: string
  req_method :: "string option"
  req_headers :: "string \<rightharpoonup> string"
  req_body :: "string option"
  req_credentials :: "string option"

text \<open>
  The body of a response of the refresh endpoint, as \<^verbatim>\<open>response.json()\<close> gives it:
  \<^verbatim>\<open>{ token, refreshToken? }\<close>, each a string when present.
\<close>

record refresh_data =
  data_token :: "string option"
  data_refreshToken :: "string option"

text \<open>
  A response: its status, and the object \<^verbatim>\<open>response.json()\<close> yields (\<open>None\<close> when the
  call rejects or yields \<^verbatim>\<open>null\<close>, so that reading a property of the result throws).
\<close>

record response =
  status :: nat
  json_body :: "refresh_data option"

text \<open>\<^verbatim>\<open>response.ok\<close>\<close>

definition ok :: "response \<Rightarrow> bool" where
  "ok r = (200 \<le> status r \<and> status r \<le> 299)"

text \<open>\<^verbatim>\<open>fetch\<close> either rejects (no response was obtained) or resolves to a response.\<close>

datatype fetch_result = NetworkError | Response response

record env =
  now_ms :: int
  atob :: "string \<Rightarrow> string option"
  JSON_parse :: "string \<Rightarrow> json option"
  JSON_stringify :: "json \<Rightarrow> string"
  string_to_number :: "json \<Rightarrow> int option"
  api_url :: string
  fetch :: "request \<Rightarrow> fetch_result"
  has_window :: bool

text \<open>
  The number a value is compared as (\<open>None\<close> is \<^verbatim>\<open>NaN\<close>). Strings, arrays and objects
  go through the platform's conversion.
\<close>

fun to_number :: "env \<Rightarrow> jsval \<Rightarrow> int option" where
  "to_number e Undefined = None"
| "to_number e (Val JNull) = Some 0"
| "to_number e (Val (JBool b)) = Some (if b then 1 else 0)"
| "to_number e (Val (JNum n)) = Some n"
| "to_number e (Val v) = string_to_number e v"

text \<open>\<^verbatim>\<open>a < b\<close> with a number on the right: false when the left side is \<^verbatim>\<open>NaN\<close>.\<close>

fun js_less :: "int option \<Rightarrow> int \<Rightarrow> bool" where
  "js_less None b = False"
| "js_less (Some a) b = (a < b)"

section \<open>State\<close>

text \<open>
  \<open>storage\<close> is \<^verbatim>\<open>localStorage\<close>; \<open>isAuthenticated\<close>, \<open>isLoading\<close> and \<open>user\<close> are the React
  state of the provider; \<open>navs\<close> and \<open>requests\<close> record, in order, the navigations triggered
  and the requests handed to \<^verbatim>\<open>fetch\<close>.
\<close>

datatype nav = RouterPush string | LocationHref string

record world =
  storage :: "string \<rightharpoonup> string"
  isAuthenticated :: bool
  isLoading :: bool
  user :: "string option"
  navs :: "nav list"
  requests :: "request list"

definition getItem :: "world \<Rightarrow> string \<Rightarrow> string option" where
  "getItem w k = storage w k"

definition setItem :: "string \<Rightarrow> string \<Rightarrow> world \<Rightarrow> world" where
  "setItem k v w = w\<lparr>storage := (storage w)(k \<mapsto> v)\<rparr>"

definition removeItem :: "string \<Rightarrow> world \<Rightarrow> world" where
  "removeItem k w = w\<lparr>storage := (storage w)(k := None)\<rparr>"

definition push :: "string \<Rightarrow> world \<Rightarrow> world" where
  "push p w = w\<lparr>navs := navs w @ [RouterPush p]\<rparr>"

definition set_href :: "string \<Rightarrow> world \<Rightarrow> world" where
  "set_href p w = w\<lparr>navs := navs w @ [LocationHref p]\<rparr>"

definition send :: "request \<Rightarrow> world \<Rightarrow> world" where
  "send r w = w\<lparr>requests := requests w @ [r]\<rparr>"

text \<open>The state before the provider has mounted, on a browser profile with an empty store.\<close>

definition initial :: world where
  "initial = \<lparr>storage = Map.empty, isAuthenticated = False, isLoading = True,
     user = None, navs = [], requests = []\<rparr>"

section \<open>The session manager\<close>

definition PUBLIC_ROUTES :: "string list" where
  "PUBLIC_ROUTES = [''/login'', ''/register'', ''/verify'']"

definition currentTime :: "env \<Rightarrow> int" where
  "currentTime e = now_ms e div 1000"

text \<open>\<^verbatim>\<open>JSON.parse(atob(tokenToCheck.split('.')[1]))\<close>; \<open>None\<close> when either call throws.\<close>

definition decode_payload :: "env \<Rightarrow> string \<Rightarrow> json option" where
  "decode_payload e tokenToCheck =
     (case atob e (index1 (split (CHR ''.'') tokenToCheck)) of
        None \<Rightarrow> None
      | Some decoded \<Rightarrow> JSON_parse e decoded)"

definition isTokenExpired :: "env \<Rightarrow> world \<Rightarrow> string option \<Rightarrow> bool" where
  "isTokenExpired e w token =
     (case or_else token (getItem w ''token'') of
        None \<Rightarrow> True
      | Some tokenToCheck \<Rightarrow>
          if tokenToCheck = [] then True
          else (case decode_payload e tokenToCheck of
                  None \<Rightarrow> True
                | Some payload \<Rightarrow>
                    (case payload_exp payload of
                       None \<Rightarrow> True
                     | Some x \<Rightarrow> js_less (to_number e x) (currentTime e + 300))))"

definition logout :: "world \<Rightarrow> world" where
  "logout w =
     push ''/login''
       ((removeItem ''user_id'' (removeItem ''refreshToken'' (removeItem ''token'' w)))
          \<lparr>isAuthenticated := False, user := None\<rparr>)"

definition refresh_request :: "env \<Rightarrow> string \<Rightarrow> request" where
  "refresh_request e storedRefreshToken =
     \<lparr>req_url = api_url e @ ''/api/auth/refresh'',
      req_method = Some ''POST'',
      req_headers = [''Content-Type'' \<mapsto> ''application/json''],
      req_body = Some (JSON_stringify e (JObj [(''refreshToken'', JStr storedRefreshToken)])),
      req_credentials = None\<rparr>"

text \<open>\<^verbatim>\<open>localStorage.setItem\<close> stores the string form of its argument.\<close>

definition to_string :: "string option \<Rightarrow> string" where
  "to_string v = (case v of None \<Rightarrow> ''undefined'' | Some s \<Rightarrow> s)"

definition refreshToken :: "env \<Rightarrow> world \<Rightarrow> string option \<times> world" where
  "refreshToken e w =
     (let storedRefreshToken = getItem w ''refreshToken'' in
      if \<not> truthy storedRefreshToken then (None, w)
      else
        let req = refresh_request e (to_string storedRefreshToken);
            w1 = send req w
        in (case fetch e req of
              NetworkError \<Rightarrow> (None, w1)
            | Response r \<Rightarrow>
                if ok r then
                  (case json_body r of
                     None \<Rightarrow> (None, w1)
                   | Some d \<Rightarrow>
                       let w2 = setItem ''token'' (to_string (data_token d)) w1;
                           w3 = (if truthy (data_refreshToken d)
                                 then setItem ''refreshToken'' (to_string (data_refreshToken d)) w2
                                 else w2)
                       in (data_token d, w3))
                else (None, logout w1)))"

definition getValidToken :: "env \<Rightarrow> world \<Rightarrow> string option \<times> world" where
  "getValidToken e w =
     (let token = getItem w ''token'' in
      if \<not> truthy token then (None, w)
      else if isTokenExpired e w token then
        (case refreshToken e w of
           (newToken, w') \<Rightarrow> if truthy newToken then (newToken, w') else (None, w'))
      else (token, w))"

text \<open>The body of the route-protection effect, for the current \<open>pathname\<close>.\<close>

definition route_guard :: "string \<Rightarrow> world \<Rightarrow> world" where
  "route_guard pathname w =
     (if \<not> isLoading w then
        (let isPublicRoute = (pathname \<in> set PUBLIC_ROUTES) in
         if \<not> isAuthenticated w \<and> \<not> isPublicRoute then push ''/login'' w
         else if isAuthenticated w \<and> isPublicRoute then push ''/'' w
         else w)
      else w)"

text \<open>
  The effect is registered with the dependencies \<^verbatim>\<open>[isAuthenticated, isLoading, pathname, router]\<close>
  (the router object does not change): after a render it runs when it has not run before
  (\<open>prev = None\<close>) or when a dependency differs from its value at the previous run.
\<close>

definition route_effect :: "(bool \<times> bool \<times> string) option \<Rightarrow> string \<Rightarrow> world \<Rightarrow> world" where
  "route_effect prev pathname w =
     (if prev = Some (isAuthenticated w, isLoading w, pathname) then w
      else route_guard pathname w)"

definition checkAuthStatus :: "env \<Rightarrow> world \<Rightarrow> world" where
  "checkAuthStatus e w =
     (let token = getItem w ''token'';
          userId = getItem w ''user_id'';
          w' =
            (if truthy token \<and> truthy userId then
               (if isTokenExpired e w token then
                  (case refreshToken e w of
                     (newToken, w1) \<Rightarrow>
                       if truthy newToken then w1\<lparr>isAuthenticated := True, user := userId\<rparr>
                       else removeItem ''user_id'' (removeItem ''refreshToken''
                              (removeItem ''token''
                                 (w1\<lparr>isAuthenticated := False, user := None\<rparr>))))
                else w\<lparr>isAuthenticated := True, user := userId\<rparr>)
             else w\<lparr>isAuthenticated := False, user := None\<rparr>)
      in w'\<lparr>isLoading := False\<rparr>)"

definition login :: "string \<Rightarrow> string \<Rightarrow> string option \<Rightarrow> world \<Rightarrow> world" where
  "login token userId refreshTokenValue w =
     (let w1 = setItem ''user_id'' userId (setItem ''token'' token w);
          w2 = (if truthy refreshTokenValue
                then setItem ''refreshToken'' (to_string refreshTokenValue) w1
                else w1)
      in w2\<lparr>isAuthenticated := True, user := Some userId\<rparr>)"

section \<open>The HTTP helper\<close>

text \<open>The functions of \<^verbatim>\<open>utils/auth.ts\<close> do nothing when there is no \<^verbatim>\<open>window\<close>.\<close>

definition getToken :: "env \<Rightarrow> world \<Rightarrow> string option" where
  "getToken e w = (if \<not> has_window e then None else getItem w ''token'')"

definition getUserId :: "env \<Rightarrow> world \<Rightarrow> string option" where
  "getUserId e w = (if \<not> has_window e then None else getItem w ''user_id'')"

definition setAuthData :: "env \<Rightarrow> string \<Rightarrow> string \<Rightarrow> world \<Rightarrow> world" where
  "setAuthData e token userId w =
     (if \<not> has_window e then w
      else setItem ''user_id'' userId (setItem ''token'' token w))"

definition clearAuthData :: "env \<Rightarrow> world \<Rightarrow> world" where
  "clearAuthData e w =
     (if \<not> has_window e then w
      else removeItem ''user_id'' (removeItem ''token'' w))"

definition redirectToLoginIfNotAuthenticated :: "env \<Rightarrow> world \<Rightarrow> bool \<times> world" where
  "redirectToLoginIfNotAuthenticated e w =
     (if \<not> has_window e then (False, w)
      else if getToken e w = None then (True, set_href ''/login'' w)
      else (False, w))"

text \<open>The part of \<^verbatim>\<open>RequestInit\<close> that reaches the request.\<close>

record options =
  opt_method :: "string option"
  opt_headers :: "string \<rightharpoonup> string"
  opt_body :: "string option"

datatype error = NoToken | AuthenticationExpired | FetchRejected

definition auth_request :: "string \<Rightarrow> string \<Rightarrow> options \<Rightarrow> request" where
  "auth_request token u opts =
     \<lparr>req_url = u,
      req_method = opt_method opts,
      req_headers = [''Content-Type'' \<mapsto> ''application/json'',
                     ''Authorization'' \<mapsto> ''Bearer '' @ token] ++ opt_headers opts,
      req_body = opt_body opts,
      req_credentials = Some ''include''\<rparr>"

definition authenticatedFetch ::
  "env \<Rightarrow> string \<Rightarrow> options \<Rightarrow> world \<Rightarrow> (error + response) \<times> world" where
  "authenticatedFetch e u opts w =
     (let token = getToken e w in
      if \<not> truthy token then (Inl NoToken, w)
      else
        let req = auth_request (to_string token) u opts;
            w1 = send req w
        in (case fetch e req of
              NetworkError \<Rightarrow> (Inl FetchRejected, w1)
            | Response r \<Rightarrow>
                if status r = 401
                then (Inl AuthenticationExpired, set_href ''/login'' (clearAuthData e w1))
                else (Inr r, w1)))"

section \<open>Reachable states\<close>

text \<open>
  The states the application can be in: starting from \<open>initial\<close>, any operation of the
  session manager or of the HTTP helper may run, in any environment.
\<close>

inductive reachable :: "world \<Rightarrow> bool" where
  start: "reachable initial"
| by_login: "reachable w \<Longrightarrow> reachable (login token userId refreshTokenValue w)"
| by_logout: "reachable w \<Longrightarrow> reachable (logout w)"
| by_refreshToken: "reachable w \<Longrightarrow> reachable (snd (refreshToken e w))"
| by_getValidToken: "reachable w \<Longrightarrow> reachable (snd (getValidToken e w))"
| by_checkAuthStatus: "reachable w \<Longrightarrow> reachable (checkAuthStatus e w)"
| by_route_effect: "reachable w \<Longrightarrow> reachable (route_effect prev pathname w)"
| by_setAuthData: "reachable w \<Longrightarrow> reachable (setAuthData e token userId w)"
| by_clearAuthData: "reachable w \<Longrightarrow> reachable (clearAuthData e w)"
| by_redirect: "reachable w \<Longrightarrow> reachable (snd (redirectToLoginIfNotAuthenticated e w))"
| by_authenticatedFetch: "reachable w \<Longrightarrow> reachable (snd (authenticatedFetch e u opts w))"

text \<open>A stored user id comes with a stored access token.\<close>

definition paired :: "world \<Rightarrow> bool" where
  "paired w = (storage w ''user_id'' \<noteq> None \<longrightarrow> storage w ''token'' \<noteq> None)"

section \<open>A sample environment\<close>

text \<open>
  Concrete values of the platform functions at the inputs the examples below use: three
  tokens whose payload segments are the base64 forms of \<^verbatim>\<open>{"exp":1000301}\<close>,
  \<^verbatim>\<open>{"exp":1000300}\<close> and \<^verbatim>\<open>{"exp":999990}\<close>, read at the instant 1000000.5 seconds
  after the epoch.
\<close>

definition sample_atob :: "string \<Rightarrow> string option" where
  \<open>sample_atob = map_of
     [(''eyJleHAiOjEwMDAzMDF9'', ''{"exp":1000301}''),
      (''eyJleHAiOjEwMDAzMDB9'', ''{"exp":1000300}''),
      (''eyJleHAiOjk5OTk5MH0'', ''{"exp":999990}'')]\<close>

definition sample_parse :: "string \<Rightarrow> json option" where
  \<open>sample_parse = map_of
     [(''{"exp":1000301}'', JObj [(''exp'', JNum 1000301)]),
      (''{"exp":1000300}'', JObj [(''exp'', JNum 1000300)]),
      (''{"exp":999990}'', JObj [(''exp'', JNum 999990)])]\<close>

definition sample_stringify :: "json \<Rightarrow> string" where
  \<open>sample_stringify j =
     (case j of
        JObj [(k, JStr v)] \<Rightarrow> ''{"'' @ k @ ''":"'' @ v @ ''"}''
      | _ \<Rightarrow> ''null'')\<close>

definition sample_env :: "(request \<Rightarrow> fetch_result) \<Rightarrow> env" where
  "sample_env f =
     \<lparr>now_ms = 1000000500, atob = sample_atob, JSON_parse = sample_parse,
      JSON_stringify = sample_stringify, string_to_number = (\<lambda>_. None),
      api_url = ''https://api.example.org'', fetch = f, has_window = True\<rparr>"

definition token_fresh :: string where
  "token_fresh = ''eyJhbGciOiJIUzI1NiIsInR5cCI6IkpXVCJ9.eyJleHAiOjEwMDAzMDF9.c2ln''"

definition token_edge :: string where
  "token_edge = ''eyJhbGciOiJIUzI1NiIsInR5cCI6IkpXVCJ9.eyJleHAiOjEwMDAzMDB9.c2ln''"

definition token_stale :: string where
  "token_stale = ''eyJhbGciOiJIUzI1NiIsInR5cCI6IkpXVCJ9.eyJleHAiOjk5OTk5MH0.c2ln''"

text \<open>A network on which every request fails before a response arrives.\<close>

definition offline :: "request \<Rightarrow> fetch_result" where
  "offline req = NetworkError"

text \<open>A server that answers every request with the given status and body.\<close>

definition respond :: "nat \<Rightarrow> refresh_data option \<Rightarrow> request \<Rightarrow> fetch_result" where
  "respond s d = (\<lambda>_. Response \<lparr>status = s, json_body = d\<rparr>)"

definition signed_in :: "string \<Rightarrow> world" where
  "signed_in tok =
     \<lparr>storage = [''token'' \<mapsto> tok, ''refreshToken'' \<mapsto> ''R1'', ''user_id'' \<mapsto> ''u1''],
      isAuthenticated = True, isLoading = False, user = Some ''u1'',
      navs = [], requests = []\<rparr>"

definition no_options :: options where
  "no_options = \<lparr>opt_method = None, opt_headers = Map.empty, opt_body = None\<rparr>"

section \<open>Facts about the state and the sample environment\<close>

lemma storage_simps:
  "storage (setItem k v w) = (storage w)(k \<mapsto> v)"
  "storage (removeItem k w) = (storage w)(k := None)"
  "storage (push p w) = storage w"
  "storage (set_href p w) = storage w"
  "storage (send r w) = storage w"
  by (simp_all add: setItem_def removeItem_def push_def set_href_def send_def)

lemma logout_fields:
  "storage (logout w) = (storage w)(''token'' := None, ''refreshToken'' := None, ''user_id'' := None)"
  "isAuthenticated (logout w) = False"
  "user (logout w) = None"
  "isLoading (logout w) = isLoading w"
  "navs (logout w) = navs w @ [RouterPush ''/login'']"
  "requests (logout w) = requests w"
  by (simp_all add: logout_def push_def removeItem_def)

lemma send_fields:
  "isAuthenticated (send r w) = isAuthenticated w"
  "user (send r w) = user w"
  "isLoading (send r w) = isLoading w"
  "navs (send r w) = navs w"
  "requests (send r w) = requests w @ [r]"
  by (simp_all add: send_def)

lemma signed_in_items:
  "getItem (signed_in tok) ''token'' = Some tok"
  "getItem (signed_in tok) ''refreshToken'' = Some ''R1''"
  "getItem (signed_in tok) ''user_id'' = Some ''u1''"
  by (simp_all add: getItem_def signed_in_def)

lemma fetch_sample: "fetch (sample_env f) = f"
  by (simp add: sample_env_def)

lemma offline_apply [simp]: "offline req = NetworkError"
  by (simp add: offline_def)

lemma token_nonempty:
  "token_fresh \<noteq> []" "token_edge \<noteq> []" "token_stale \<noteq> []"
  by (simp_all add: token_fresh_def token_edge_def token_stale_def)

lemma currentTime_sample: "currentTime (sample_env f) = 1000000"
  by (simp add: currentTime_def sample_env_def)

lemma decode_fresh:
  "decode_payload (sample_env f) token_fresh = Some (JObj [(''exp'', JNum 1000301)])"
  by (simp add: decode_payload_def sample_env_def token_fresh_def index1_def
      sample_atob_def sample_parse_def)

lemma decode_edge:
  "decode_payload (sample_env f) token_edge = Some (JObj [(''exp'', JNum 1000300)])"
  by (simp add: decode_payload_def sample_env_def token_edge_def index1_def
      sample_atob_def sample_parse_def)

lemma decode_stale:
  "decode_payload (sample_env f) token_stale = Some (JObj [(''exp'', JNum 999990)])"
  by (simp add: decode_payload_def sample_env_def token_stale_def index1_def
      sample_atob_def sample_parse_def)

lemma decode_garbage:
  "decode_payload (sample_env f) ''garbage'' = None"
  by (simp add: decode_payload_def sample_env_def index1_def sample_atob_def)

section \<open>Expiry evaluation\<close>

lemma isTokenExpired_given:
  "tok \<noteq> [] \<Longrightarrow> isTokenExpired e w (Some tok) =
     (case decode_payload e tok of
        None \<Rightarrow> True
      | Some payload \<Rightarrow>
          (case payload_exp payload of
             None \<Rightarrow> True
           | Some x \<Rightarrow> js_less (to_number e x) (currentTime e + 300)))"
  by (simp add: isTokenExpired_def or_else_def)

lemma stale_expired: "isTokenExpired (sample_env f) w (Some token_stale)"
  by (simp add: isTokenExpired_given token_nonempty decode_stale currentTime_sample)

lemma fresh_not_expired: "\<not> isTokenExpired (sample_env f) w (Some token_fresh)"
  by (simp add: isTokenExpired_given token_nonempty decode_fresh currentTime_sample)

text \<open>
  A payload that decodes to an object without an \<open>exp\<close> key is compared as
  \<^verbatim>\<open>undefined < n\<close>, which is false: such a token is reported as not expired.
\<close>

lemma isTokenExpired_without_exp:
  "tok \<noteq> [] \<Longrightarrow> decode_payload e tok = Some (JObj kvs) \<Longrightarrow> map_of kvs ''exp'' = None \<Longrightarrow>
   \<not> isTokenExpired e w (Some tok)"
  by (simp add: isTokenExpired_given)

text \<open>
  Claim C1, as the code has it. For a token given to \<open>isTokenExpired\<close> whose payload
  decodes and carries a numeric \<open>exp\<close>, the result is true exactly when \<open>exp\<close> is below
  the current time in whole seconds (\<^verbatim>\<open>Date.now()\<close> divided by 1000, rounded down) plus 300.
  So it is false whenever \<open>exp\<close> is more than 300 seconds after the current instant, and
  true whenever \<open>exp\<close> is in the past or at most 299 seconds ahead. A token whose
  payload cannot be decoded (\<^verbatim>\<open>atob\<close> or \<^verbatim>\<open>JSON.parse\<close> throws, or the payload is
  \<^verbatim>\<open>null\<close>) is expired, and so is an absent or empty token when no non-empty token is
  stored. The function is total: every place where the source can throw is a branch
  that yields true.
\<close>

theorem isTokenExpired_threshold:
  "(tok \<noteq> [] \<longrightarrow> decode_payload e tok = Some p \<longrightarrow> payload_exp p = Some (Val (JNum x)) \<longrightarrow>
      isTokenExpired e w (Some tok) = (x < currentTime e + 300)
      \<and> (x * 1000 > now_ms e + 300 * 1000 \<longrightarrow> \<not> isTokenExpired e w (Some tok))
      \<and> (x * 1000 \<le> now_ms e + 299 * 1000 \<longrightarrow> isTokenExpired e w (Some tok)))
   \<and> (tok \<noteq> [] \<longrightarrow>
        (decode_payload e tok = None
         \<or> (\<exists>q. decode_payload e tok = Some q \<and> payload_exp q = None)) \<longrightarrow>
        isTokenExpired e w (Some tok))
   \<and> (\<not> truthy token \<longrightarrow> \<not> truthy (getItem w ''token'') \<longrightarrow> isTokenExpired e w token)"
proof (intro conjI impI)
  assume h: "tok \<noteq> []" "decode_payload e tok = Some p" "payload_exp p = Some (Val (JNum x))"
  then show eq: "isTokenExpired e w (Some tok) = (x < currentTime e + 300)"
    by (simp add: isTokenExpired_given)
  { assume "x * 1000 > now_ms e + 300 * 1000"
    then have "\<not> x < now_ms e div 1000 + 300" by linarith
    with eq show "\<not> isTokenExpired e w (Some tok)" by (simp add: currentTime_def) }
  { assume "x * 1000 \<le> now_ms e + 299 * 1000"
    then have "x < now_ms e div 1000 + 300" by linarith
    with eq show "isTokenExpired e w (Some tok)" by (simp add: currentTime_def) }
next
  assume "tok \<noteq> []"
    and "decode_payload e tok = None \<or> (\<exists>q. decode_payload e tok = Some q \<and> payload_exp q = None)"
  then show "isTokenExpired e w (Some tok)"
    by (auto simp: isTokenExpired_given)
next
  assume "\<not> truthy token" "\<not> truthy (getItem w ''token'')"
  then show "isTokenExpired e w token"
    by (cases "getItem w ''token''") (auto simp: isTokenExpired_def or_else_def)
qed

theorem isTokenExpired_threshold_witness:
  "\<not> isTokenExpired (sample_env offline) initial (Some token_fresh)
   \<and> isTokenExpired (sample_env offline) initial (Some token_stale)
   \<and> isTokenExpired (sample_env offline) initial (Some ''garbage'')
   \<and> isTokenExpired (sample_env offline) initial None"
proof -
  let ?e = "sample_env offline"
  have now: "now_ms ?e = 1000000500" by (simp add: sample_env_def)
  have a: "\<not> isTokenExpired ?e initial (Some token_fresh)"
    using isTokenExpired_threshold [of token_fresh ?e "JObj [(''exp'', JNum 1000301)]" 1000301 initial None]
    by (simp add: decode_fresh token_nonempty currentTime_sample)
  have b: "isTokenExpired ?e initial (Some token_stale)"
    using isTokenExpired_threshold [of token_stale ?e "JObj [(''exp'', JNum 999990)]" 999990 initial None]
    by (simp add: decode_stale token_nonempty currentTime_sample)
  have c: "isTokenExpired ?e initial (Some ''garbage'')"
    using isTokenExpired_threshold [of "''garbage''" ?e JNull 0 initial None]
    by (simp add: decode_garbage)
  have d: "isTokenExpired ?e initial None"
    using isTokenExpired_threshold [of "[]" ?e JNull 0 initial None]
    by (simp add: getItem_def initial_def)
  from a b c d show ?thesis by simp
qed

text \<open>
  Claim C1 as stated fails on the margin: at the instant 1000000.5 a token with
  \<open>exp = 1000300\<close> expires in 299.5 seconds (and exactly 300 seconds after the current
  time in whole seconds), which is within 300 seconds, yet it is reported as not expired.
\<close>

theorem isTokenExpired_within_margin_counterexample:
  "decode_payload (sample_env offline) token_edge
       = Some (JObj [(''exp'', JNum 1000300)])
   \<and> 1000300 * 1000 \<le> now_ms (sample_env offline) + 300 * 1000
   \<and> 1000300 \<le> currentTime (sample_env offline) + 300
   \<and> \<not> isTokenExpired (sample_env offline) initial (Some token_edge)"
  by (simp add: isTokenExpired_given token_nonempty decode_edge currentTime_sample)
     (simp add: sample_env_def)

section \<open>Refreshing\<close>

lemma refreshToken_absent:
  "\<not> truthy (getItem w ''refreshToken'') \<Longrightarrow> refreshToken e w = (None, w)"
  by (simp add: refreshToken_def)

lemma refreshToken_sent:
  "getItem w ''refreshToken'' = Some r \<Longrightarrow> r \<noteq> [] \<Longrightarrow>
   refreshToken e w =
     (case fetch e (refresh_request e r) of
        NetworkError \<Rightarrow> (None, send (refresh_request e r) w)
      | Response resp \<Rightarrow>
          if ok resp then
            (case json_body resp of
               None \<Rightarrow> (None, send (refresh_request e r) w)
             | Some d \<Rightarrow>
                 (data_token d,
                  (if truthy (data_refreshToken d)
                   then setItem ''refreshToken'' (to_string (data_refreshToken d))
                   else id)
                    (setItem ''token'' (to_string (data_token d))
                       (send (refresh_request e r) w))))
          else (None, logout (send (refresh_request e r) w)))"
  by (simp add: refreshToken_def to_string_def Let_def split: fetch_result.splits option.splits)

text \<open>
  Claim C3. When a non-empty refresh token \<open>r\<close> is stored and the request made with it
  gets a response whose status is not in 200..299, \<open>refreshToken\<close> returns an absent
  result in the state \<open>logout\<close> produces: the three credential fields are removed, the
  session is unauthenticated with no user, and \<^verbatim>\<open>/login\<close> is pushed. Exactly one request
  has been sent: the refresh is not tried again.
\<close>

theorem refreshToken_rejected:
  assumes "getItem w ''refreshToken'' = Some r" and "r \<noteq> []"
    and "fetch e (refresh_request e r) = Response resp" and "\<not> ok resp"
  shows "refreshToken e w = (None, logout (send (refresh_request e r) w))
    \<and> fst (refreshToken e w) = None
    \<and> storage (snd (refreshToken e w)) ''token'' = None
    \<and> storage (snd (refreshToken e w)) ''refreshToken'' = None
    \<and> storage (snd (refreshToken e w)) ''user_id'' = None
    \<and> \<not> isAuthenticated (snd (refreshToken e w))
    \<and> user (snd (refreshToken e w)) = None
    \<and> navs (snd (refreshToken e w)) = navs w @ [RouterPush ''/login'']
    \<and> requests (snd (refreshToken e w)) = requests w @ [refresh_request e r]"
proof -
  have "refreshToken e w = (None, logout (send (refresh_request e r) w))"
    using assms by (simp add: refreshToken_sent)
  then show ?thesis
    by (simp add: logout_fields send_fields storage_simps)
qed

theorem refreshToken_rejected_witness:
  "fst (refreshToken (sample_env (respond 403 None)) (signed_in token_stale)) = None
   \<and> storage (snd (refreshToken (sample_env (respond 403 None)) (signed_in token_stale)))
       = Map.empty
   \<and> \<not> isAuthenticated (snd (refreshToken (sample_env (respond 403 None)) (signed_in token_stale)))
   \<and> navs (snd (refreshToken (sample_env (respond 403 None)) (signed_in token_stale)))
       = [RouterPush ''/login'']
   \<and> length (requests (snd (refreshToken (sample_env (respond 403 None)) (signed_in token_stale))))
       = 1"
proof -
  let ?e = "sample_env (respond 403 None)"
  have "refreshToken ?e (signed_in token_stale)
          = (None, logout (send (refresh_request ?e ''R1'') (signed_in token_stale)))"
    using refreshToken_rejected [of "signed_in token_stale" "''R1''" ?e "\<lparr>status = 403, json_body = None\<rparr>"]
    by (simp add: signed_in_items fetch_sample respond_def ok_def)
  then show ?thesis
    by (simp add: logout_fields send_fields storage_simps) (simp add: signed_in_def)
qed

text \<open>
  Claim C4. With no (or an empty) refresh token stored, \<open>refreshToken\<close> returns an
  absent result and the state is the one it started in, so no request was sent. When the
  request is sent and \<^verbatim>\<open>fetch\<close> rejects, the result is absent, the store and the session
  are as before and nothing is pushed: there is no logout.
\<close>

theorem refreshToken_nonterminal:
  "(\<not> truthy (getItem w ''refreshToken'') \<longrightarrow> refreshToken e w = (None, w))
   \<and> (getItem w ''refreshToken'' = Some r \<longrightarrow> r \<noteq> [] \<longrightarrow>
        fetch e (refresh_request e r) = NetworkError \<longrightarrow>
          fst (refreshToken e w) = None
          \<and> storage (snd (refreshToken e w)) = storage w
          \<and> isAuthenticated (snd (refreshToken e w)) = isAuthenticated w
          \<and> user (snd (refreshToken e w)) = user w
          \<and> navs (snd (refreshToken e w)) = navs w
          \<and> requests (snd (refreshToken e w)) = requests w @ [refresh_request e r])"
  by (simp add: refreshToken_absent refreshToken_sent send_fields storage_simps)

theorem refreshToken_nonterminal_witness:
  "refreshToken (sample_env (respond 200 None)) initial = (None, initial)
   \<and> fst (refreshToken (sample_env offline) (signed_in token_stale)) = None
   \<and> storage (snd (refreshToken (sample_env offline) (signed_in token_stale)))
       = storage (signed_in token_stale)
   \<and> navs (snd (refreshToken (sample_env offline) (signed_in token_stale))) = []"
proof -
  have a: "refreshToken (sample_env (respond 200 None)) initial = (None, initial)"
    using refreshToken_nonterminal [of initial "sample_env (respond 200 None)" "[]"]
    by (simp add: getItem_def initial_def)
  have b: "fst (refreshToken (sample_env offline) (signed_in token_stale)) = None
   \<and> storage (snd (refreshToken (sample_env offline) (signed_in token_stale)))
       = storage (signed_in token_stale)
   \<and> navs (snd (refreshToken (sample_env offline) (signed_in token_stale))) = []"
    using refreshToken_nonterminal [of "signed_in token_stale" "sample_env offline" "''R1''"]
    by (simp add: signed_in_items fetch_sample) (simp add: signed_in_def)
  from a b show ?thesis by simp
qed

section \<open>Obtaining a valid token\<close>

lemma getValidToken_expired:
  "truthy (getItem w ''token'') \<Longrightarrow> isTokenExpired e w (getItem w ''token'') \<Longrightarrow>
   getValidToken e w =
     (if truthy (fst (refreshToken e w)) then fst (refreshToken e w) else None,
      snd (refreshToken e w))"
  by (simp add: getValidToken_def split: prod.splits)

text \<open>
  Claim C2, as the code has it. With no (or an empty) access token stored,
  \<open>getValidToken\<close> returns an absent result and leaves the state as it is, so no request
  is sent. A stored token that is not expired is returned, the state unchanged. For a
  stored token that is expired the state is the one \<open>refreshToken\<close> leaves, and the
  result is the result of \<open>refreshToken\<close>, except that an empty token produced by
  \<open>refreshToken\<close> is returned as an absent result.
\<close>

theorem getValidToken_cases:
  "(\<not> truthy (getItem w ''token'') \<longrightarrow> getValidToken e w = (None, w))
   \<and> (truthy (getItem w ''token'') \<longrightarrow> \<not> isTokenExpired e w (getItem w ''token'') \<longrightarrow>
        getValidToken e w = (getItem w ''token'', w))
   \<and> (truthy (getItem w ''token'') \<longrightarrow> isTokenExpired e w (getItem w ''token'') \<longrightarrow>
        snd (getValidToken e w) = snd (refreshToken e w)
        \<and> (fst (refreshToken e w) \<noteq> Some [] \<longrightarrow>
              fst (getValidToken e w) = fst (refreshToken e w))
        \<and> (fst (refreshToken e w) = Some [] \<longrightarrow> fst (getValidToken e w) = None))"
proof (intro conjI impI)
  show "\<not> truthy (getItem w ''token'') \<Longrightarrow> getValidToken e w = (None, w)"
    by (simp add: getValidToken_def)
  show "truthy (getItem w ''token'') \<Longrightarrow> \<not> isTokenExpired e w (getItem w ''token'') \<Longrightarrow>
        getValidToken e w = (getItem w ''token'', w)"
    by (simp add: getValidToken_def)
next
  assume h: "truthy (getItem w ''token'')" "isTokenExpired e w (getItem w ''token'')"
  show "snd (getValidToken e w) = snd (refreshToken e w)"
    using h by (simp add: getValidToken_expired)
  show "fst (getValidToken e w) = fst (refreshToken e w)" if "fst (refreshToken e w) \<noteq> Some []"
    using h that by (cases "fst (refreshToken e w)") (simp_all add: getValidToken_expired)
  show "fst (getValidToken e w) = None" if "fst (refreshToken e w) = Some []"
    using h that by (simp add: getValidToken_expired)
qed

lemma refresh_empty_token:
  "fst (refreshToken (sample_env (respond 200 (Some \<lparr>data_token = Some [], data_refreshToken = None\<rparr>)))
        (signed_in token_stale)) = Some []"
  by (simp add: refreshToken_sent signed_in_items fetch_sample respond_def ok_def)

theorem getValidToken_cases_witness:
  "getValidToken (sample_env offline) initial = (None, initial)
   \<and> getValidToken (sample_env offline) (signed_in token_fresh)
       = (Some token_fresh, signed_in token_fresh)
   \<and> fst (getValidToken (sample_env offline) (signed_in token_stale)) = None
   \<and> fst (getValidToken
        (sample_env (respond 200 (Some \<lparr>data_token = Some [], data_refreshToken = None\<rparr>)))
        (signed_in token_stale)) = None"
proof -
  let ?n = "sample_env offline"
  let ?z = "sample_env (respond 200 (Some \<lparr>data_token = Some [], data_refreshToken = None\<rparr>))"
  have a: "getValidToken ?n initial = (None, initial)"
    using getValidToken_cases [of initial ?n] by (simp add: getItem_def initial_def)
  have b: "getValidToken ?n (signed_in token_fresh) = (Some token_fresh, signed_in token_fresh)"
    using getValidToken_cases [of "signed_in token_fresh" ?n]
    by (simp add: signed_in_items token_nonempty fresh_not_expired)
  have "fst (refreshToken ?n (signed_in token_stale)) = None"
    by (simp add: refreshToken_sent signed_in_items fetch_sample)
  then have c: "fst (getValidToken ?n (signed_in token_stale)) = None"
    using getValidToken_cases [of "signed_in token_stale" ?n]
    by (simp add: signed_in_items token_nonempty stale_expired)
  have d: "fst (getValidToken ?z (signed_in token_stale)) = None"
    using getValidToken_cases [of "signed_in token_stale" ?z]
    by (simp add: signed_in_items token_nonempty stale_expired refresh_empty_token)
  from a b c d show ?thesis by simp
qed

text \<open>
  Claim C2 as stated fails when the refresh endpoint answers 200 with \<^verbatim>\<open>{token: ""}\<close>:
  \<open>refreshToken\<close> produces the empty string, and \<open>getValidToken\<close> returns an absent
  result instead.
\<close>

theorem getValidToken_empty_token_counterexample:
  "truthy (getItem (signed_in token_stale) ''token'')
   \<and> isTokenExpired (sample_env (respond 200 (Some \<lparr>data_token = Some [], data_refreshToken = None\<rparr>)))
        (signed_in token_stale) (getItem (signed_in token_stale) ''token'')
   \<and> fst (refreshToken (sample_env (respond 200 (Some \<lparr>data_token = Some [], data_refreshToken = None\<rparr>)))
        (signed_in token_stale)) = Some []
   \<and> fst (getValidToken (sample_env (respond 200 (Some \<lparr>data_token = Some [], data_refreshToken = None\<rparr>)))
        (signed_in token_stale)) = None"
  by (simp add: getValidToken_expired refresh_empty_token signed_in_items stale_expired token_nonempty)

text \<open>
  Claim C5, as the code has it. When a non-empty refresh token \<open>r\<close> is stored and the
  request gets a 2xx response whose body reads as JSON and carries the token \<open>t\<close>,
  \<open>refreshToken\<close> returns \<open>t\<close> and stores it
  as the access token; the stored refresh token becomes the one in the response when
  the response has a non-empty one and stays \<open>r\<close> otherwise; the user id is untouched.
  Hence, with an expired stored access token and \<open>t\<close> non-empty, \<open>getValidToken\<close> returns
  \<open>t\<close> in that state. The scenario of the specification (\<^verbatim>\<open>{token: "T2"}\<close> with 200, stored
  token expired ten seconds ago) is the witness.
\<close>

theorem refreshToken_success:
  assumes "getItem w ''refreshToken'' = Some r" and "r \<noteq> []"
    and "fetch e (refresh_request e r) = Response resp" and "ok resp"
    and "json_body resp = Some d" and "data_token d = Some t"
  shows "fst (refreshToken e w) = Some t
    \<and> storage (snd (refreshToken e w)) ''token'' = Some t
    \<and> (truthy (data_refreshToken d) \<longrightarrow>
          storage (snd (refreshToken e w)) ''refreshToken'' = data_refreshToken d)
    \<and> (\<not> truthy (data_refreshToken d) \<longrightarrow>
          storage (snd (refreshToken e w)) ''refreshToken'' = Some r)
    \<and> storage (snd (refreshToken e w)) ''user_id'' = storage w ''user_id''
    \<and> (truthy (getItem w ''token'') \<longrightarrow> isTokenExpired e w (getItem w ''token'') \<longrightarrow>
          t \<noteq> [] \<longrightarrow>
          getValidToken e w = (Some t, snd (refreshToken e w)))"
proof -
  have eq: "refreshToken e w =
      (Some t,
       (if truthy (data_refreshToken d)
        then setItem ''refreshToken'' (to_string (data_refreshToken d)) else id)
         (setItem ''token'' t (send (refresh_request e r) w)))"
    using assms by (simp add: refreshToken_sent to_string_def)
  have r: "storage w ''refreshToken'' = Some r"
    using assms(1) by (simp add: getItem_def)
  have "truthy (data_refreshToken d) \<Longrightarrow>
        Some (to_string (data_refreshToken d)) = data_refreshToken d"
    by (cases "data_refreshToken d") (simp_all add: to_string_def)
  with eq r show ?thesis
    by (simp add: storage_simps getValidToken_expired)
qed

theorem refreshToken_success_witness:
  "getValidToken (sample_env (respond 200 (Some \<lparr>data_token = Some ''T2'', data_refreshToken = None\<rparr>)))
      (signed_in token_stale)
     = (Some ''T2'',
        snd (refreshToken
          (sample_env (respond 200 (Some \<lparr>data_token = Some ''T2'', data_refreshToken = None\<rparr>)))
          (signed_in token_stale)))
   \<and> storage (snd (getValidToken
        (sample_env (respond 200 (Some \<lparr>data_token = Some ''T2'', data_refreshToken = None\<rparr>)))
        (signed_in token_stale)))
     = [''token'' \<mapsto> ''T2'', ''refreshToken'' \<mapsto> ''R1'', ''user_id'' \<mapsto> ''u1'']"
proof -
  let ?d = "\<lparr>data_token = Some ''T2'', data_refreshToken = None\<rparr>"
  let ?e = "sample_env (respond 200 (Some ?d))"
  let ?w = "signed_in token_stale"
  note th = refreshToken_success [of ?w "''R1''" ?e "\<lparr>status = 200, json_body = Some ?d\<rparr>" ?d "''T2''"]
  have h: "fst (refreshToken ?e ?w) = Some ''T2''
    \<and> storage (snd (refreshToken ?e ?w)) ''token'' = Some ''T2''
    \<and> storage (snd (refreshToken ?e ?w)) ''refreshToken'' = Some ''R1''
    \<and> getValidToken ?e ?w = (Some ''T2'', snd (refreshToken ?e ?w))"
    using th
    by (simp add: signed_in_items fetch_sample respond_def ok_def token_nonempty stale_expired)
  have s: "storage (snd (refreshToken ?e ?w))
      = [''token'' \<mapsto> ''T2'', ''refreshToken'' \<mapsto> ''R1'', ''user_id'' \<mapsto> ''u1'']"
    by (simp add: refreshToken_sent signed_in_items fetch_sample respond_def ok_def
        storage_simps to_string_def)
       (auto simp: signed_in_def)
  from h s show ?thesis by simp
qed

text \<open>
  Claim C5 as stated fails for a 2xx response without a readable body: on a 204 the call
  \<^verbatim>\<open>response.json()\<close> rejects, the rejection is caught, and \<open>refreshToken\<close> returns an
  absent result with the stored access token still the old one.
\<close>

theorem refreshToken_unreadable_body_counterexample:
  "getItem (signed_in token_stale) ''refreshToken'' = Some ''R1''
   \<and> fetch (sample_env (respond 204 None))
         (refresh_request (sample_env (respond 204 None)) ''R1'')
       = Response \<lparr>status = 204, json_body = None\<rparr>
   \<and> ok \<lparr>status = 204, json_body = None\<rparr>
   \<and> fst (refreshToken (sample_env (respond 204 None)) (signed_in token_stale)) = None
   \<and> storage (snd (refreshToken (sample_env (respond 204 None)) (signed_in token_stale)))
         ''token'' = Some token_stale"
  by (simp add: refreshToken_sent signed_in_items fetch_sample respond_def ok_def storage_simps)
     (simp add: signed_in_def)

section \<open>Logging out\<close>

text \<open>
  Claim C6. From every state, \<open>logout\<close> leaves the three credential fields empty and
  the session unauthenticated with no user, and pushes \<^verbatim>\<open>/login\<close>. In a state that is
  already logged out it changes nothing but the navigation log, and a second \<open>logout\<close>
  after a first one only pushes \<^verbatim>\<open>/login\<close> again.
\<close>

theorem logout_clears:
  "storage (logout w) ''token'' = None
   \<and> storage (logout w) ''refreshToken'' = None
   \<and> storage (logout w) ''user_id'' = None
   \<and> \<not> isAuthenticated (logout w)
   \<and> user (logout w) = None
   \<and> navs (logout w) = navs w @ [RouterPush ''/login'']
   \<and> (storage w ''token'' = None \<and> storage w ''refreshToken'' = None
        \<and> storage w ''user_id'' = None \<and> \<not> isAuthenticated w \<and> user w = None \<longrightarrow>
       logout w = w\<lparr>navs := navs w @ [RouterPush ''/login'']\<rparr>)
   \<and> logout (logout w) = (logout w)\<lparr>navs := navs (logout w) @ [RouterPush ''/login'']\<rparr>"
proof -
  have idle: "logout v = v\<lparr>navs := navs v @ [RouterPush ''/login'']\<rparr>"
    if "storage v ''token'' = None" "storage v ''refreshToken'' = None"
       "storage v ''user_id'' = None" "\<not> isAuthenticated v" "user v = None" for v
  proof -
    have "(storage v)(''token'' := None, ''refreshToken'' := None, ''user_id'' := None) = storage v"
      using that by (simp add: fun_upd_idem)
    then show ?thesis
      using that by (simp add: logout_def push_def removeItem_def)
  qed
  have again: "logout (logout w) = (logout w)\<lparr>navs := navs (logout w) @ [RouterPush ''/login'']\<rparr>"
    by (rule idle) (simp_all add: logout_fields)
  from idle [of w] again show ?thesis
    by (simp add: logout_fields)
qed

theorem logout_clears_witness:
  "storage (logout (signed_in token_fresh)) = Map.empty
   \<and> \<not> isAuthenticated (logout (signed_in token_fresh))
   \<and> navs (logout (signed_in token_fresh)) = [RouterPush ''/login'']
   \<and> logout initial = initial\<lparr>navs := [RouterPush ''/login'']\<rparr>"
proof -
  have a: "logout initial = initial\<lparr>navs := [RouterPush ''/login'']\<rparr>"
    using logout_clears [of initial] by (simp add: initial_def)
  have b: "\<not> isAuthenticated (logout (signed_in token_fresh))
     \<and> navs (logout (signed_in token_fresh)) = [RouterPush ''/login'']"
    using logout_clears [of "signed_in token_fresh"] by (simp add: signed_in_def)
  have c: "storage (logout (signed_in token_fresh)) = Map.empty"
    by (simp add: logout_fields) (simp add: signed_in_def)
  from a b c show ?thesis by simp
qed

section \<open>Route protection\<close>

text \<open>
  Claim C8. The public routes are \<^verbatim>\<open>/login\<close>, \<^verbatim>\<open>/register\<close> and \<^verbatim>\<open>/verify\<close>. Whenever the
  effect is due (the authentication flag, the loading flag or the location differs from
  the previous run, or there was none) and \<open>isLoading\<close> is false: an unauthenticated
  session outside the public routes is sent to \<^verbatim>\<open>/login\<close>, and an authenticated session
  on a public route is sent to \<^verbatim>\<open>/\<close>.
\<close>

theorem route_guard_redirects:
  "set PUBLIC_ROUTES = {''/login'', ''/register'', ''/verify''}
   \<and> (\<not> isLoading w \<longrightarrow> prev \<noteq> Some (isAuthenticated w, isLoading w, pathname) \<longrightarrow>
        (\<not> isAuthenticated w \<and> pathname \<notin> set PUBLIC_ROUTES \<longrightarrow>
           route_effect prev pathname w = push ''/login'' w)
        \<and> (isAuthenticated w \<and> pathname \<in> set PUBLIC_ROUTES \<longrightarrow>
           route_effect prev pathname w = push ''/'' w))"
  by (auto simp: route_effect_def route_guard_def PUBLIC_ROUTES_def)

theorem route_guard_redirects_witness:
  "navs (route_effect (Some (False, True, ''/login'')) ''/login'' (signed_in token_fresh))
     = [RouterPush ''/'']
   \<and> navs (route_effect None ''/posts'' (initial\<lparr>isLoading := False\<rparr>))
     = [RouterPush ''/login'']"
proof -
  have a: "route_effect (Some (False, True, ''/login'')) ''/login'' (signed_in token_fresh)
      = push ''/'' (signed_in token_fresh)"
    using route_guard_redirects [of "signed_in token_fresh" "Some (False, True, ''/login'')" "''/login''"]
    by (simp add: signed_in_def PUBLIC_ROUTES_def)
  have b: "route_effect None ''/posts'' (initial\<lparr>isLoading := False\<rparr>)
      = push ''/login'' (initial\<lparr>isLoading := False\<rparr>)"
    using route_guard_redirects [of "initial\<lparr>isLoading := False\<rparr>" None "''/posts''"]
    by (simp add: initial_def PUBLIC_ROUTES_def)
  show ?thesis
    unfolding a b by (simp add: push_def signed_in_def initial_def)
qed

section \<open>Logging in\<close>

text \<open>
  Claim C9. When \<open>login\<close> is called with no refresh token, or with an empty one, the
  stored refresh token is what it was before, while the access token and the user id
  are overwritten with the arguments.
\<close>

theorem login_keeps_refreshToken:
  "\<not> truthy refreshTokenValue \<longrightarrow>
     storage (login token userId refreshTokenValue w) ''refreshToken'' = storage w ''refreshToken''
     \<and> storage (login token userId refreshTokenValue w) ''token'' = Some token
     \<and> storage (login token userId refreshTokenValue w) ''user_id'' = Some userId"
  by (simp add: login_def storage_simps)

theorem login_keeps_refreshToken_witness:
  "storage (login ''T9'' ''u2'' None (signed_in token_stale))
     = [''token'' \<mapsto> ''T9'', ''refreshToken'' \<mapsto> ''R1'', ''user_id'' \<mapsto> ''u2'']
   \<and> storage (login ''T9'' ''u2'' (Some []) (signed_in token_stale)) ''refreshToken''
     = Some ''R1''"
proof -
  have a: "storage (login ''T9'' ''u2'' None (signed_in token_stale)) ''refreshToken'' = Some ''R1''"
    using login_keeps_refreshToken [of None "''T9''" "''u2''" "signed_in token_stale"]
    by (simp add: signed_in_def)
  have b: "storage (login ''T9'' ''u2'' (Some []) (signed_in token_stale)) ''refreshToken'' = Some ''R1''"
    using login_keeps_refreshToken [of "Some []" "''T9''" "''u2''" "signed_in token_stale"]
    by (simp add: signed_in_def)
  have c: "storage (login ''T9'' ''u2'' None (signed_in token_stale))
     = [''token'' \<mapsto> ''T9'', ''refreshToken'' \<mapsto> ''R1'', ''user_id'' \<mapsto> ''u2'']"
    by (auto simp: login_def storage_simps signed_in_def)
  from a b c show ?thesis by simp
qed

section \<open>The stored credentials as a unit\<close>

lemma paired_refreshToken: "paired w \<Longrightarrow> paired (snd (refreshToken e w))"
  by (auto simp: paired_def refreshToken_def Let_def storage_simps logout_fields
      split: fetch_result.splits option.splits)

lemma paired_getValidToken: "paired w \<Longrightarrow> paired (snd (getValidToken e w))"
  using paired_refreshToken [of w e]
  by (auto simp: getValidToken_def Let_def split: prod.splits)

lemma paired_checkAuthStatus: "paired w \<Longrightarrow> paired (checkAuthStatus e w)"
  using paired_refreshToken [of w e]
  by (auto simp: checkAuthStatus_def Let_def paired_def removeItem_def split: prod.splits)

lemma paired_authenticatedFetch: "paired w \<Longrightarrow> paired (snd (authenticatedFetch e u opts w))"
  by (auto simp: paired_def authenticatedFetch_def Let_def clearAuthData_def storage_simps
      split: fetch_result.splits)

lemma paired_reachable: "reachable w \<Longrightarrow> paired w"
proof (induction rule: reachable.induct)
  case start
  show ?case by (simp add: paired_def initial_def)
next
  case (by_login w token userId refreshTokenValue)
  show ?case by (simp add: paired_def login_def Let_def storage_simps)
next
  case (by_logout w)
  show ?case by (simp add: paired_def logout_fields)
next
  case (by_refreshToken w e)
  then show ?case by (simp add: paired_refreshToken)
next
  case (by_getValidToken w e)
  then show ?case by (simp add: paired_getValidToken)
next
  case (by_checkAuthStatus w e)
  then show ?case by (simp add: paired_checkAuthStatus)
next
  case (by_route_effect w prev pathname)
  then show ?case
    by (simp add: paired_def route_effect_def route_guard_def Let_def storage_simps)
next
  case (by_setAuthData w e token userId)
  then show ?case by (simp add: paired_def setAuthData_def storage_simps)
next
  case (by_clearAuthData w e)
  then show ?case by (simp add: paired_def clearAuthData_def storage_simps)
next
  case (by_redirect w e)
  then show ?case
    by (simp add: paired_def redirectToLoginIfNotAuthenticated_def storage_simps)
next
  case (by_authenticatedFetch w e u opts)
  then show ?case by (simp add: paired_authenticatedFetch)
qed

lemma checkAuthStatus_failed:
  assumes "truthy (getItem w ''token'')" and "truthy (getItem w ''user_id'')"
    and "isTokenExpired e w (getItem w ''token'')" and "\<not> truthy (fst (refreshToken e w))"
  shows "checkAuthStatus e w =
     (removeItem ''user_id'' (removeItem ''refreshToken'' (removeItem ''token''
        ((snd (refreshToken e w))\<lparr>isAuthenticated := False, user := None\<rparr>))))
       \<lparr>isLoading := False\<rparr>"
  using assms by (cases "refreshToken e w") (simp add: checkAuthStatus_def Let_def)

text \<open>
  Claim C7, as the code has it. In every state reachable from an empty store through
  the operations of the session manager and of the HTTP helper, a stored user id comes
  with a stored access token: the two are written together, and no operation leaves a
  user id behind without an access token. The clearing operations of the session
  manager, \<open>logout\<close> and the failed start-up check, empty all three fields.
\<close>

theorem credentials_paired:
  assumes "reachable w"
  shows "(storage w ''user_id'' \<noteq> None \<longrightarrow> storage w ''token'' \<noteq> None)
    \<and> (storage (logout w) ''token'' = None \<and> storage (logout w) ''refreshToken'' = None
        \<and> storage (logout w) ''user_id'' = None)
    \<and> (truthy (getItem w ''token'') \<longrightarrow> truthy (getItem w ''user_id'') \<longrightarrow>
        isTokenExpired e w (getItem w ''token'') \<longrightarrow> \<not> truthy (fst (refreshToken e w)) \<longrightarrow>
          storage (checkAuthStatus e w) ''token'' = None
          \<and> storage (checkAuthStatus e w) ''refreshToken'' = None
          \<and> storage (checkAuthStatus e w) ''user_id'' = None)"
proof -
  have "paired w" using assms by (rule paired_reachable)
  then show ?thesis
    by (simp add: paired_def logout_fields checkAuthStatus_failed storage_simps)
qed

theorem credentials_paired_witness:
  "reachable (login token_fresh ''u1'' (Some ''R1'') initial)
   \<and> storage (login token_fresh ''u1'' (Some ''R1'') initial) ''user_id'' = Some ''u1''
   \<and> storage (login token_fresh ''u1'' (Some ''R1'') initial) ''token'' \<noteq> None
   \<and> storage (checkAuthStatus (sample_env offline) (signed_in token_stale))
       = Map.empty"
proof -
  let ?w = "login token_fresh ''u1'' (Some ''R1'') initial"
  let ?e = "sample_env offline"
  have r: "reachable ?w" by (intro reachable.intros)
  have u: "storage ?w ''user_id'' = Some ''u1''"
    by (simp add: login_def storage_simps)
  have t: "storage ?w ''token'' \<noteq> None"
    using credentials_paired [OF r, of ?e] u by simp
  have c: "storage (checkAuthStatus ?e (signed_in token_stale)) = Map.empty"
    by (simp add: checkAuthStatus_failed signed_in_items token_nonempty stale_expired
        refreshToken_sent fetch_sample storage_simps send_def)
       (simp add: signed_in_def)
  from r u t c show ?thesis by simp
qed

text \<open>
  Claim C7 as stated fails for the clearing operation of the HTTP helper: after a login
  that stored all three fields, \<open>clearAuthData\<close> removes the access token and the user
  id and leaves the refresh token behind.
\<close>

theorem clearAuthData_leaves_refreshToken_counterexample:
  "reachable (login token_fresh ''u1'' (Some ''R1'') initial)
   \<and> storage (login token_fresh ''u1'' (Some ''R1'') initial) ''token'' = Some token_fresh
   \<and> storage (login token_fresh ''u1'' (Some ''R1'') initial) ''refreshToken'' = Some ''R1''
   \<and> storage (login token_fresh ''u1'' (Some ''R1'') initial) ''user_id'' = Some ''u1''
   \<and> storage (clearAuthData (sample_env offline)
        (login token_fresh ''u1'' (Some ''R1'') initial)) ''token'' = None
   \<and> storage (clearAuthData (sample_env offline)
        (login token_fresh ''u1'' (Some ''R1'') initial)) ''user_id'' = None
   \<and> storage (clearAuthData (sample_env offline)
        (login token_fresh ''u1'' (Some ''R1'') initial)) ''refreshToken'' = Some ''R1''"
proof -
  have "reachable (login token_fresh ''u1'' (Some ''R1'') initial)"
    by (intro reachable.intros)
  then show ?thesis
    by (simp add: clearAuthData_def login_def storage_simps to_string_def sample_env_def)
qed

section \<open>Authenticated requests\<close>

lemma authenticatedFetch_sent:
  "getToken e w = Some t \<Longrightarrow> t \<noteq> [] \<Longrightarrow>
   authenticatedFetch e u opts w =
     (case fetch e (auth_request t u opts) of
        NetworkError \<Rightarrow> (Inl FetchRejected, send (auth_request t u opts) w)
      | Response r \<Rightarrow>
          if status r = 401
          then (Inl AuthenticationExpired,
                set_href ''/login'' (clearAuthData e (send (auth_request t u opts) w)))
          else (Inr r, send (auth_request t u opts) w))"
  by (simp add: authenticatedFetch_def to_string_def Let_def)

text \<open>
  Claim C10. With no (or an empty) access token stored, \<open>authenticatedFetch\<close> throws in
  the state it started in, so no request is sent. When the request is sent and the
  response has status 401, it throws after removing the access token and the user id,
  leaving the refresh token as it was, and after setting the location to \<^verbatim>\<open>/login\<close>.
  A response it returns never has status 401.
\<close>

theorem authenticatedFetch_failures:
  "(\<not> truthy (getItem w ''token'') \<longrightarrow> authenticatedFetch e u opts w = (Inl NoToken, w))
   \<and> (getToken e w = Some t \<longrightarrow> t \<noteq> [] \<longrightarrow>
        fetch e (auth_request t u opts) = Response r \<longrightarrow> status r = 401 \<longrightarrow>
          fst (authenticatedFetch e u opts w) = Inl AuthenticationExpired
          \<and> storage (snd (authenticatedFetch e u opts w)) ''token'' = None
          \<and> storage (snd (authenticatedFetch e u opts w)) ''user_id'' = None
          \<and> storage (snd (authenticatedFetch e u opts w)) ''refreshToken''
              = storage w ''refreshToken''
          \<and> navs (snd (authenticatedFetch e u opts w)) = navs w @ [LocationHref ''/login''])
   \<and> (fst (authenticatedFetch e u opts w) = Inr r \<longrightarrow> status r \<noteq> 401)"
proof (intro conjI impI)
  assume "\<not> truthy (getItem w ''token'')"
  then have "\<not> truthy (getToken e w)" by (simp add: getToken_def)
  then show "authenticatedFetch e u opts w = (Inl NoToken, w)"
    by (simp add: authenticatedFetch_def)
next
  assume h: "getToken e w = Some t" "t \<noteq> []"
    "fetch e (auth_request t u opts) = Response r" "status r = 401"
  then have win: "has_window e" by (auto simp: getToken_def split: if_splits)
  have eq: "authenticatedFetch e u opts w =
      (Inl AuthenticationExpired,
       set_href ''/login'' (clearAuthData e (send (auth_request t u opts) w)))"
    using h by (simp add: authenticatedFetch_sent)
  show "fst (authenticatedFetch e u opts w) = Inl AuthenticationExpired"
    by (simp add: eq)
  show "storage (snd (authenticatedFetch e u opts w)) ''token'' = None"
    by (simp add: eq win clearAuthData_def storage_simps)
  show "storage (snd (authenticatedFetch e u opts w)) ''user_id'' = None"
    by (simp add: eq win clearAuthData_def storage_simps)
  show "storage (snd (authenticatedFetch e u opts w)) ''refreshToken'' = storage w ''refreshToken''"
    by (simp add: eq win clearAuthData_def storage_simps)
  show "navs (snd (authenticatedFetch e u opts w)) = navs w @ [LocationHref ''/login'']"
    by (simp add: eq win clearAuthData_def set_href_def removeItem_def send_def)
next
  assume "fst (authenticatedFetch e u opts w) = Inr r"
  then show "status r \<noteq> 401"
    by (auto simp: authenticatedFetch_def Let_def split: if_splits fetch_result.splits)
qed

theorem authenticatedFetch_failures_witness:
  "authenticatedFetch (sample_env (respond 200 None)) ''/api/posts'' no_options initial
     = (Inl NoToken, initial)
   \<and> fst (authenticatedFetch (sample_env (respond 401 None)) ''/api/posts'' no_options
        (signed_in token_fresh)) = Inl AuthenticationExpired
   \<and> storage (snd (authenticatedFetch (sample_env (respond 401 None)) ''/api/posts'' no_options
        (signed_in token_fresh))) = [''refreshToken'' \<mapsto> ''R1'']
   \<and> navs (snd (authenticatedFetch (sample_env (respond 401 None)) ''/api/posts'' no_options
        (signed_in token_fresh))) = [LocationHref ''/login'']"
proof -
  let ?e = "sample_env (respond 401 None)"
  let ?w = "signed_in token_fresh"
  have a: "authenticatedFetch (sample_env (respond 200 None)) ''/api/posts'' no_options initial
     = (Inl NoToken, initial)"
    using authenticatedFetch_failures [of initial "sample_env (respond 200 None)" "''/api/posts''" no_options]
    by (simp add: getItem_def initial_def)
  have g: "getToken ?e ?w = Some token_fresh"
    by (simp add: getToken_def signed_in_items sample_env_def)
  have b: "fst (authenticatedFetch ?e ''/api/posts'' no_options ?w) = Inl AuthenticationExpired
    \<and> navs (snd (authenticatedFetch ?e ''/api/posts'' no_options ?w)) = [LocationHref ''/login'']"
    using authenticatedFetch_failures [of ?w ?e "''/api/posts''" no_options token_fresh
        "\<lparr>status = 401, json_body = None\<rparr>"] g
    by (simp add: token_nonempty fetch_sample respond_def) (simp add: signed_in_def)
  have c: "storage (snd (authenticatedFetch ?e ''/api/posts'' no_options ?w))
      = [''refreshToken'' \<mapsto> ''R1'']"
    using g
    by (simp add: authenticatedFetch_sent token_nonempty fetch_sample respond_def
        clearAuthData_def storage_simps)
       (auto simp: sample_env_def signed_in_def)
  from a b c show ?thesis by simp
qed

end
